theory Spec2Isabelle
  imports Main "HOL-Library.Sublist"
begin

section \<open>Python values and errors\<close>

text \<open>
  The module \<open>aws_hacks.py\<close> is embedded function by function. Every exception the code can
  raise is a value of \<open>py_error\<close>; a function that can raise returns \<open>py_error + 'a\<close>, with
  \<open>Inl\<close> for the exception.
\<close>

datatype py_error =
  TypeError | AttributeError | IOError | OSError | KeyError | ValueError | S3ResponseError
  | UnicodeDecodeError

definition bind_err :: "py_error + 'a \<Rightarrow> ('a \<Rightarrow> py_error + 'b) \<Rightarrow> py_error + 'b" where
  "bind_err m f = (case m of Inl e \<Rightarrow> Inl e | Inr x \<Rightarrow> f x)"

text \<open>A list comprehension whose elements can raise: the first exception ends it.\<close>

fun collect :: "(py_error + 'a) list \<Rightarrow> py_error + 'a list" where
  "collect [] = Inr []"
| "collect (m # ms) = bind_err m (\<lambda>x. bind_err (collect ms) (\<lambda>xs. Inr (x # xs)))"

text \<open>\<open>sep.join(xs)\<close> on a list of strings.\<close>

fun join :: "string \<Rightarrow> string list \<Rightarrow> string" where
  "join sep [] = []"
| "join sep [x] = x"
| "join sep (x # y # ys) = x @ sep @ join sep (y # ys)"

text \<open>
  \<open>sub in s\<close> on two strings: \<open>sub\<close> occurs in \<open>s\<close> as a contiguous run.
\<close>

fun str_contains :: "string \<Rightarrow> string \<Rightarrow> bool" where
  "str_contains sub [] = (sub = [])"
| "str_contains sub (c # cs) = (prefix sub (c # cs) \<or> str_contains sub cs)"

text \<open>\<open>str(n)\<close> of an integer: its decimal digits, with a minus sign below zero.\<close>

fun str_nat :: "nat \<Rightarrow> string" where
  "str_nat n =
     (if n < 10 then [''0123456789'' ! n]
      else str_nat (n div 10) @ [''0123456789'' ! (n mod 10)])"

declare str_nat.simps [simp del]

definition str_int :: "int \<Rightarrow> string" where
  "str_int i = (if i < 0 then CHR ''-'' # str_nat (nat (- i)) else str_nat (nat i))"

subsection \<open>\<open>str.format\<close> with keyword arguments\<close>

text \<open>
  \<open>template.format(**kw)\<close>, for the replacement fields the module uses: a field is
  \<open>{name}\<close>, replaced by the keyword argument of that name; \<open>{{\<close> and \<open>}}\<close> are the
  escaped braces. A field with no keyword argument raises KeyError; a brace with no partner
  raises ValueError. The scanner's second argument is \<open>None\<close> in literal text and
  \<open>Some name\<close> inside a field, holding the part of the field name read so far. The
  values substituted are not scanned again. Conversions and format specifications
  (\<open>{x!r}\<close>, \<open>{x:>8}\<close>) do not occur in the module and are not modelled.
\<close>

fun format_scan ::
  "(string \<times> string) list \<Rightarrow> string option \<Rightarrow> string \<Rightarrow> py_error + string" where
  "format_scan kw None [] = Inr []"
| "format_scan kw (Some name) [] = Inl ValueError"
| "format_scan kw None (c # cs) =
     (if c = CHR ''{'' then
        (case cs of
           [] \<Rightarrow> Inl ValueError
         | d # ds \<Rightarrow>
             if d = CHR ''{'' then bind_err (format_scan kw None ds) (\<lambda>r. Inr (c # r))
             else format_scan kw (Some []) cs)
      else if c = CHR ''}'' then
        (case cs of
           [] \<Rightarrow> Inl ValueError
         | d # ds \<Rightarrow>
             if d = CHR ''}'' then bind_err (format_scan kw None ds) (\<lambda>r. Inr (c # r))
             else Inl ValueError)
      else bind_err (format_scan kw None cs) (\<lambda>r. Inr (c # r)))"
| "format_scan kw (Some name) (c # cs) =
     (if c = CHR ''}'' then
        (case map_of kw name of
           None \<Rightarrow> Inl KeyError
         | Some v \<Rightarrow> bind_err (format_scan kw None cs) (\<lambda>r. Inr (v @ r)))
      else format_scan kw (Some (name @ [c])) cs)"

definition format_str :: "string \<Rightarrow> (string \<times> string) list \<Rightarrow> py_error + string" where
  "format_str tmpl kw = format_scan kw None tmpl"

section \<open>The script composer\<close>

text \<open>
  The two module-level templates, \<open>_base_cmd_tmp\<close> and \<open>_base_swap_tmp\<close>, one source
  line per line. \<open>CHR 0x5C\<close> is the backslash that ends three lines of the first one.
\<close>

definition base_cmd_tmp :: string where
  \<open>base_cmd_tmp =
     ''#!/bin/bash\<newline>'' @
     ''echo "updating code ..."\<newline>'' @
     ''source /home/ubuntu/.bashrc\<newline>'' @
     ''source /home/ubuntu/{anaconda_path}/bin/activate {env}\<newline>'' @
     ''{install_pip}\<newline>'' @
     ''{swapfile_cmd}\<newline>'' @
     ''(cd /home/ubuntu/github/{repo} '' @ [CHR 0x5C] @ ''\<newline>'' @
     ''  && git pull origin master '' @ [CHR 0x5C] @ ''\<newline>'' @
     ''  && echo "updating code ... done" '' @ [CHR 0x5C] @ ''\<newline>'' @
     ''  && {cmd})\<newline>''\<close>

definition base_swap_tmp :: string where
  \<open>base_swap_tmp =
     ''echo "making swap file ..."\<newline>'' @
     ''sudo chown ubuntu /mnt\<newline>'' @
     ''sudo dd if=/dev/zero of=/mnt/swapfile bs=1M count={add_swap_file}\<newline>'' @
     ''sudo chown root:root /mnt/swapfile\<newline>'' @
     ''sudo chmod 600 /mnt/swapfile\<newline>'' @
     ''sudo mkswap /mnt/swapfile\<newline>'' @
     ''sudo swapon /mnt/swapfile\<newline>'' @
     ''echo "/mnt/swapfile swap swap defaults 0 0" | sudo tee -a /etc/fstab\<newline>'' @
     ''sudo swapon -a\<newline>'' @
     ''echo "making swap file ... done"\<newline>''\<close>

text \<open>
  The argument \<open>add_swap_file\<close> is documented as \<open>bool, int\<close>. Its truth value decides
  whether the swap block is emitted, and \<open>str\<close> of it is what the block's field receives.
\<close>

datatype swap_arg = SwapBool bool | SwapInt int

fun truthy :: "swap_arg \<Rightarrow> bool" where
  "truthy (SwapBool b) = b"
| "truthy (SwapInt n) = (n \<noteq> 0)"

fun py_str :: "swap_arg \<Rightarrow> string" where
  "py_str (SwapBool b) = (if b then ''True'' else ''False'')"
| "py_str (SwapInt n) = str_int n"

text \<open>
  \<open>make_start_script(cmd, repo, anaconda_path, env, install_pip=(), add_swap_file=False)\<close>.
  The package list is a list of strings, the other four arguments are strings.
\<close>

definition make_start_script ::
  "string \<Rightarrow> string \<Rightarrow> string \<Rightarrow> string \<Rightarrow> string list \<Rightarrow> swap_arg \<Rightarrow> py_error + string" where
  "make_start_script cmd repo anaconda_path env install_pip add_swap_file =
     bind_err
       (if truthy add_swap_file
        then format_str base_swap_tmp [(''add_swap_file'', py_str add_swap_file)]
        else Inr '''')
       (\<lambda>swapfile_cmd.
     bind_err
       (if length install_pip = 0 then Inr ''''
        else bind_err
          (collect (map (\<lambda>package.
             format_str ''{anaconda_path}/bin/pip install {package}''
               [(''anaconda_path'', anaconda_path), (''package'', package)]) install_pip))
          (\<lambda>ls. Inr (join ''\<newline>'' ls)))
       (\<lambda>install_pip'.
     format_str base_cmd_tmp
       [(''anaconda_path'', anaconda_path), (''install_pip'', install_pip'),
        (''swapfile_cmd'', swapfile_cmd), (''repo'', repo), (''env'', env), (''cmd'', cmd)]))"

text \<open>
  The texts the specification describes, written out: the fixed head of the script, one
  install line, the swap block for a rendered size, and the closing block that enters the
  repository, pulls and runs the command. The theorems compare the composer's output
  with them.
\<close>

definition script_head :: "string \<Rightarrow> string \<Rightarrow> string" where
  \<open>script_head anaconda_path env =
     ''#!/bin/bash\<newline>'' @
     ''echo "updating code ..."\<newline>'' @
     ''source /home/ubuntu/.bashrc\<newline>'' @
     ''source /home/ubuntu/'' @ anaconda_path @ ''/bin/activate '' @ env @ ''\<newline>''\<close>

definition install_line :: "string \<Rightarrow> string \<Rightarrow> string" where
  "install_line anaconda_path package = anaconda_path @ ''/bin/pip install '' @ package"

definition swap_block :: "string \<Rightarrow> string" where
  \<open>swap_block mb =
     ''echo "making swap file ..."\<newline>'' @
     ''sudo chown ubuntu /mnt\<newline>'' @
     ''sudo dd if=/dev/zero of=/mnt/swapfile bs=1M count='' @ mb @ ''\<newline>'' @
     ''sudo chown root:root /mnt/swapfile\<newline>'' @
     ''sudo chmod 600 /mnt/swapfile\<newline>'' @
     ''sudo mkswap /mnt/swapfile\<newline>'' @
     ''sudo swapon /mnt/swapfile\<newline>'' @
     ''echo "/mnt/swapfile swap swap defaults 0 0" | sudo tee -a /etc/fstab\<newline>'' @
     ''sudo swapon -a\<newline>'' @
     ''echo "making swap file ... done"\<newline>''\<close>

definition run_block :: "string \<Rightarrow> string \<Rightarrow> string" where
  \<open>run_block repo cmd =
     ''(cd /home/ubuntu/github/'' @ repo @ '' '' @ [CHR 0x5C] @ ''\<newline>'' @
     ''  && git pull origin master '' @ [CHR 0x5C] @ ''\<newline>'' @
     ''  && echo "updating code ... done" '' @ [CHR 0x5C] @ ''\<newline>'' @
     ''  && '' @ cmd @ '')\<newline>''\<close>

text \<open>\<open>s.split('\n')\<close>: the lines of a text.\<close>

fun split_lines :: "string \<Rightarrow> string list" where
  "split_lines [] = [[]]"
| "split_lines (c # cs) =
     (if c = CHR ''\<newline>'' then [] # split_lines cs
      else (case split_lines cs of [] \<Rightarrow> [[c]] | l # ls \<Rightarrow> (c # l) # ls))"

section \<open>The parallel-run command builder\<close>

text \<open>
  The values of the mapping are strings, but for the parameter \<open>par_args\<close>, whose value is
  a list of strings. The mapping is the list of its items in iteration order. Iterating a
  string yields its characters, which is what \<open>' '.join\<close> does to a string value. A list
  under another name is formatted by \<open>str\<close> of the list; that rendering is the parameter
  \<open>list_str\<close>.
\<close>

datatype py_value = PyStr string | PyList "string list"

fun elements :: "py_value \<Rightarrow> string list" where
  "elements (PyStr s) = map (\<lambda>c. [c]) s"
| "elements (PyList xs) = xs"

fun format_value :: "(string list \<Rightarrow> string) \<Rightarrow> py_value \<Rightarrow> string" where
  "format_value list_str (PyStr s) = s"
| "format_value list_str (PyList xs) = list_str xs"

definition get_run_parallel_script ::
  "(string list \<Rightarrow> string) \<Rightarrow> (string \<times> py_value) list \<Rightarrow> py_error + string" where
  "get_run_parallel_script list_str parallel_args =
     bind_err
       (collect (map (\<lambda>(param, value).
          format_str ''--{param} {value}''
            [(''param'', param),
             (''value'', if param = ''par_args'' then join '' '' (elements value)
                         else format_value list_str value)]) parallel_args))
       (\<lambda>flags. Inr (''python run_parallel.py '' @ join '' '' flags))"

section \<open>The object transfer\<close>

subsection \<open>The process, the local files and the object store\<close>

text \<open>
  What the two transfer functions read and change is one record, passed in and returned:
  \<^item> \<open>environ\<close> is \<open>os.environ\<close>, and \<open>env_trace\<close> lists every assignment to it and
    every deletion from it, in the order they happen, so that what happens to the
    environment during a call can be stated;
  \<^item> \<open>stdout\<close> holds the lines printed;
  \<^item> \<open>files\<close> is the local file system, a file's bytes by its path;
  \<^item> \<open>text_decode\<close> is the text layer of the interpreter: what reading bytes through
    a file opened in text mode yields, the decoded and newline-translated text or the
    exception. It depends on the interpreter and the locale (Python 2 on POSIX hands the
    bytes on as they are; Python 3 decodes them and raises UnicodeDecodeError on bytes
    that are not text in the locale's encoding), so it is a parameter of the process;
  \<^item> \<open>handles\<close> holds the file objects of the process, a file object's descriptor being
    its index;
  \<^item> \<open>buckets\<close> is the object store, and \<open>sent_report\<close> is the number the store's client
    returns from \<open>set_contents_from_file\<close> for what it read from the file object
    (\<open>None\<close> is Python's \<open>None\<close>).
  The store's client is boto, which is not part of the module. Its model is the least
  that the calls made need: \<open>connect_s3\<close> needs a host string, a bucket is a map from
  keys to objects, \<open>get_bucket\<close> with validation raises when the bucket is missing,
  \<open>Key.exists\<close> and \<open>Bucket.get_key\<close> look the key up, a download writes the object's
  bytes to the path and an upload stores what it reads from the file object. Failures of
  the network or of authentication are
  not modelled. The credentials, the progress callback, the checksum and the
  redundancy flag are handed to the client as they are and decide nothing in the module;
  the functions below leave them out.
\<close>

datatype env_event = EnvSet string string | EnvDel string

record file_object =
  content :: string
  pos :: nat
  closed :: bool

record s3_object =
  body :: string
  metadata :: "(string \<times> string) list"

record world =
  environ :: "string \<rightharpoonup> string"
  env_trace :: "env_event list"
  stdout :: "string list"
  files :: "string \<rightharpoonup> string"
  text_decode :: "string \<Rightarrow> py_error + string"
  handles :: "file_object list"
  buckets :: "string \<rightharpoonup> (string \<rightharpoonup> s3_object)"
  sent_report :: "string \<Rightarrow> nat option"

text \<open>\<open>os.environ[k] = v\<close> and \<open>del os.environ[k]\<close>; the latter raises KeyError on a missing name.\<close>

definition setenv :: "world \<Rightarrow> string \<Rightarrow> string \<Rightarrow> world" where
  "setenv w k v = w\<lparr>environ := (environ w)(k \<mapsto> v), env_trace := env_trace w @ [EnvSet k v]\<rparr>"

definition delenv :: "world \<Rightarrow> string \<Rightarrow> (py_error + unit) \<times> world" where
  "delenv w k =
     (case environ w k of
        None \<Rightarrow> (Inl KeyError, w)
      | Some _ \<Rightarrow>
          (Inr (), w\<lparr>environ := (environ w)(k := None), env_trace := env_trace w @ [EnvDel k]\<rparr>))"

definition print_line :: "world \<Rightarrow> string \<Rightarrow> world" where
  "print_line w s = w\<lparr>stdout := stdout w @ [s]\<rparr>"

text \<open>
  The \<open>host\<close> argument: \<open>None\<close>, an instance of boto's \<open>NoHostProvided\<close>, or a string.
\<close>

datatype host_arg = HostNone | NoHostProvided | Host string

text \<open>
  The store's client. \<open>boto.connect_s3(..., host=host)\<close> takes the host as a string: with
  \<open>None\<close> or an instance of \<open>NoHostProvided\<close> it raises TypeError before any request
  is made.
\<close>

definition connect_s3 :: "host_arg \<Rightarrow> py_error + unit" where
  "connect_s3 host = (case host of Host h \<Rightarrow> Inr () | _ \<Rightarrow> Inl TypeError)"

definition key_exists :: "world \<Rightarrow> string \<Rightarrow> string \<Rightarrow> bool" where
  "key_exists w bucket key =
     (case buckets w bucket of
        None \<Rightarrow> False
      | Some objs \<Rightarrow> (case objs key of None \<Rightarrow> False | Some _ \<Rightarrow> True))"

definition get_key :: "world \<Rightarrow> string \<Rightarrow> string \<Rightarrow> s3_object option" where
  "get_key w bucket key = (case buckets w bucket of None \<Rightarrow> None | Some objs \<Rightarrow> objs key)"

definition get_contents_to_filename :: "world \<Rightarrow> s3_object \<Rightarrow> string \<Rightarrow> world" where
  "get_contents_to_filename w obj fname = w\<lparr>files := (files w)(fname \<mapsto> body obj)\<rparr>"

definition get_bucket_validate :: "world \<Rightarrow> string \<Rightarrow> py_error + string" where
  "get_bucket_validate w bucket =
     (case buckets w bucket of None \<Rightarrow> Inl S3ResponseError | Some _ \<Rightarrow> Inr bucket)"

text \<open>
  File objects. \<open>open(fname)\<close> opens in text mode: the file object holds the file's
  bytes, positions count bytes, and reading passes the bytes from the position on through
  the text layer, which may raise. Every operation on a closed file object raises
  ValueError. \<open>seek(0, os.SEEK_END)\<close> is \<open>seek_end\<close>.
\<close>

definition seek :: "file_object \<Rightarrow> nat \<Rightarrow> py_error + file_object" where
  "seek f p = (if closed f then Inl ValueError else Inr (f\<lparr>pos := p\<rparr>))"

definition seek_end :: "file_object \<Rightarrow> py_error + file_object" where
  "seek_end f = (if closed f then Inl ValueError else Inr (f\<lparr>pos := length (content f)\<rparr>))"

definition tell :: "file_object \<Rightarrow> py_error + nat" where
  "tell f = (if closed f then Inl ValueError else Inr (pos f))"

definition read_rest :: "world \<Rightarrow> file_object \<Rightarrow> py_error + (string \<times> file_object)" where
  "read_rest w f =
     (if closed f then Inl ValueError
      else bind_err (text_decode w (drop (pos f) (content f)))
             (\<lambda>text. Inr (text, f\<lparr>pos := max (pos f) (length (content f))\<rparr>)))"

definition close :: "file_object \<Rightarrow> file_object" where
  "close f = f\<lparr>closed := True\<rparr>"

text \<open>
  The first argument of \<open>upload_to_s3\<close>, \<open>fname\<close>: a path, or a file object (given by its
  descriptor). \<open>open\<close> takes a path: it raises IOError when no file is there and TypeError on
  a file object. A string has no method \<open>fileno\<close>, so calling it raises AttributeError.
\<close>

datatype fname_arg = PathStr string | FileObj nat

definition py_open :: "world \<Rightarrow> fname_arg \<Rightarrow> py_error + file_object" where
  "py_open w fname =
     (case fname of
        PathStr p \<Rightarrow>
          (case files w p of
             None \<Rightarrow> Inl IOError
           | Some bytes \<Rightarrow> Inr \<lparr>content = bytes, pos = 0, closed = False\<rparr>)
      | FileObj _ \<Rightarrow> Inl TypeError)"

definition fileno :: "world \<Rightarrow> fname_arg \<Rightarrow> py_error + nat" where
  "fileno w fname =
     (case fname of
        PathStr _ \<Rightarrow> Inl AttributeError
      | FileObj fd \<Rightarrow>
          if fd < length (handles w) \<and> \<not> closed (handles w ! fd) then Inr fd
          else Inl ValueError)"

definition fstat_size :: "world \<Rightarrow> nat \<Rightarrow> py_error + nat" where
  "fstat_size w fd =
     (if fd < length (handles w) \<and> \<not> closed (handles w ! fd)
      then Inr (length (content (handles w ! fd)))
      else Inl OSError)"

text \<open>
  \<open>set_contents_from_file(fid, ..., rewind=True)\<close>: the client seeks to the start, reads
  the file object to its end, stores what it read under the key with the metadata set
  on it, and returns its count of what it sent.
\<close>

definition set_contents_from_file ::
  "world \<Rightarrow> string \<Rightarrow> string \<Rightarrow> (string \<times> string) list \<Rightarrow> file_object \<Rightarrow>
     py_error + (nat option \<times> file_object \<times> world)" where
  "set_contents_from_file w bucket key meta fid =
     bind_err (seek fid 0) (\<lambda>fid1.
     bind_err (read_rest w fid1) (\<lambda>(bytes, fid2).
       Inr (sent_report w bytes, fid2,
            w\<lparr>buckets := (buckets w)(bucket \<mapsto>
                 (case buckets w bucket of None \<Rightarrow> Map.empty | Some objs \<Rightarrow> objs)
                 (key \<mapsto> \<lparr>body = bytes, metadata = meta\<rparr>))\<rparr>)))"

text \<open>
  The hosts the specification calls region-triggering: strings that contain the region
  marker.
\<close>

definition has_region_marker :: "host_arg \<Rightarrow> bool" where
  "has_region_marker host =
     (case host of Host h \<Rightarrow> str_contains ''eu-central'' h | _ \<Rightarrow> False)"

subsection \<open>Download\<close>

text \<open>
  Lines 79 to 85 of the source: the flag is set when the host is a string that contains
  \<open>eu-central\<close>; \<open>None\<close> and an instance of \<open>NoHostProvided\<close> are left alone.
\<close>

definition switch_download :: "world \<Rightarrow> host_arg \<Rightarrow> bool \<times> world" where
  "switch_download w host =
     (case host of
        Host h \<Rightarrow>
          if str_contains ''eu-central'' h then (True, setenv w ''S3_USE_SIGV4'' ''True'')
          else (False, w)
      | _ \<Rightarrow> (False, w))"

text \<open>
  Lines 101 to 103: the flag is deleted when it was set, and \<open>out\<close> is returned. Lines
  153 to 158 of the upload do the same with \<open>sent == size\<close> for \<open>out\<close>.
\<close>

definition unset_and_return :: "bool \<Rightarrow> bool \<Rightarrow> world \<Rightarrow> (py_error + bool) \<times> world" where
  "unset_and_return switch_validation out w =
     (if switch_validation then
        (case delenv w ''S3_USE_SIGV4'' of
           (Inl e, w') \<Rightarrow> (Inl e, w')
         | (Inr _, w') \<Rightarrow> (Inr out, w'))
      else (Inr out, w))"

text \<open>
  \<open>download_from_s3(aws_access_key_id, aws_secret_access_key, bucket, fname, key,
  dry_run=False, host='s3.amazonaws.com')\<close>. Line 86 connects, which raises for a host
  that is no string. The dry-run branch is the \<open>return True\<close> of line 97, which leaves
  the function before lines 101 to 103.
\<close>

definition download_from_s3 ::
  "world \<Rightarrow> string \<Rightarrow> string \<Rightarrow> string \<Rightarrow> bool \<Rightarrow> host_arg \<Rightarrow> (py_error + bool) \<times> world" where
  "download_from_s3 w bucket fname key dry_run host =
     (let (switch_validation, w1) = switch_download w host in
      case connect_s3 host of
        Inl e \<Rightarrow> (Inl e, w1)
      | Inr com \<Rightarrow>
          if key_exists w1 bucket key then
            if \<not> dry_run then
              (case get_key w1 bucket key of
                 None \<Rightarrow> (Inl AttributeError, w1)
               | Some s3fid \<Rightarrow>
                   unset_and_return switch_validation True
                     (get_contents_to_filename w1 s3fid fname))
            else (Inr True, w1)
          else
            unset_and_return switch_validation False
              (print_line w1 (''could not get '' @ key @ '' : it does not exist'')))"

subsection \<open>Upload\<close>

text \<open>
  Lines 127 to 131: as for download, but with no test for \<open>NoHostProvided\<close>, on which
  \<open>in\<close> raises TypeError.
\<close>

definition switch_upload :: "world \<Rightarrow> host_arg \<Rightarrow> (py_error + bool) \<times> world" where
  "switch_upload w host =
     (case host of
        HostNone \<Rightarrow> (Inr False, w)
      | NoHostProvided \<Rightarrow> (Inl TypeError, w)
      | Host h \<Rightarrow>
          if str_contains ''eu-central'' h then (Inr True, setenv w ''S3_USE_SIGV4'' ''True'')
          else (Inr False, w))"

text \<open>
  Lines 140 to 146, the \<open>try\<close> and its bare \<open>except\<close>: the size is
  \<open>os.fstat(fname.fileno()).st_size\<close>, and when that raises, the position after seeking
  the opened file object \<open>fid\<close> to its end.
\<close>

definition primary_size :: "world \<Rightarrow> fname_arg \<Rightarrow> py_error + nat" where
  "primary_size w fname = bind_err (fileno w fname) (fstat_size w)"

definition fallback_size :: "file_object \<Rightarrow> py_error + (nat \<times> file_object)" where
  "fallback_size fid = bind_err (seek_end fid) (\<lambda>fid1. bind_err (tell fid1) (\<lambda>n. Inr (n, fid1)))"

definition measure_size ::
  "world \<Rightarrow> fname_arg \<Rightarrow> file_object \<Rightarrow> py_error + (nat \<times> file_object)" where
  "measure_size w fname fid =
     (case primary_size w fname of
        Inr n \<Rightarrow> Inr (n, fid)
      | Inl _ \<Rightarrow> fallback_size fid)"

text \<open>
  Lines 139 to 151, the \<open>with\<close> block: the file is opened, measured, sent and sought back
  to the start. Leaving the block closes the file object, on a normal exit and on an
  exception alike; the closed file object is then the newest of the process's file
  objects. The block's value is the pair of \<open>sent\<close> and \<open>size\<close>.
\<close>

definition with_open ::
  "world \<Rightarrow> fname_arg \<Rightarrow> string \<Rightarrow> string \<Rightarrow> (string \<times> string) list \<Rightarrow>
     (py_error + (nat option \<times> nat)) \<times> world" where
  "with_open w fname bucket key meta =
     (case py_open w fname of
        Inl e \<Rightarrow> (Inl e, w)
      | Inr fid \<Rightarrow>
          (case measure_size w fname fid of
             Inl e \<Rightarrow> (Inl e, w\<lparr>handles := handles w @ [close fid]\<rparr>)
           | Inr (sz, fid1) \<Rightarrow>
               (case set_contents_from_file w bucket key meta fid1 of
                  Inl e \<Rightarrow> (Inl e, w\<lparr>handles := handles w @ [close fid1]\<rparr>)
                | Inr (sent, fid2, w1) \<Rightarrow>
                    (case seek fid2 0 of
                       Inl e \<Rightarrow> (Inl e, w1\<lparr>handles := handles w1 @ [close fid2]\<rparr>)
                     | Inr fid3 \<Rightarrow>
                         (Inr (sent, sz), w1\<lparr>handles := handles w1 @ [close fid3]\<rparr>)))))"

text \<open>
  Lines 136 and 137: a content type that is \<open>None\<close> or the empty string sets no metadata.
\<close>

definition content_type_metadata :: "string option \<Rightarrow> (string \<times> string) list" where
  "content_type_metadata content_type =
     (case content_type of
        None \<Rightarrow> []
      | Some ct \<Rightarrow> if ct = [] then [] else [(''Content-Type'', ct)])"

text \<open>
  \<open>upload_to_s3(aws_access_key_id, aws_secret_access_key, fname, bucket, key,
  callback=None, md5=None, reduced_redundancy=False, content_type=None,
  host='s3.eu-central-1.amazonaws.com')\<close>. Line 132 connects, which raises for a host
  that is no string. The result is \<open>sent == size\<close>, which is False when \<open>sent\<close> is
  \<open>None\<close>.
\<close>

definition upload_to_s3 ::
  "world \<Rightarrow> fname_arg \<Rightarrow> string \<Rightarrow> string \<Rightarrow> string option \<Rightarrow> host_arg \<Rightarrow>
     (py_error + bool) \<times> world" where
  "upload_to_s3 w fname bucket key content_type host =
     (case switch_upload w host of
        (Inl e, w1) \<Rightarrow> (Inl e, w1)
      | (Inr switch_validation, w1) \<Rightarrow>
          (case connect_s3 host of
             Inl e \<Rightarrow> (Inl e, w1)
           | Inr com \<Rightarrow>
               (case get_bucket_validate w1 bucket of
                  Inl e \<Rightarrow> (Inl e, w1)
                | Inr bucket1 \<Rightarrow>
                    (let meta = content_type_metadata content_type
                     in case with_open w1 fname bucket1 key meta of
                          (Inl e, w2) \<Rightarrow> (Inl e, w2)
                        | (Inr (sent, sz), w2) \<Rightarrow>
                            unset_and_return switch_validation (sent = Some sz) w2))))"

subsection \<open>Example states\<close>

text \<open>
  A text layer for the examples, that of Python 3 under an ASCII locale: a byte above 127
  raises UnicodeDecodeError, and a carriage return, with the line feed that follows it if
  one does, is read as one line feed.
\<close>

fun translate_newlines :: "string \<Rightarrow> string" where
  "translate_newlines [] = []"
| "translate_newlines (c # cs) =
     (if c = CHR 0x0D then
        (case cs of
           [] \<Rightarrow> [CHR ''\<newline>'']
         | d # ds \<Rightarrow>
             if d = CHR ''\<newline>'' then CHR ''\<newline>'' # translate_newlines ds
             else CHR ''\<newline>'' # translate_newlines cs)
      else c # translate_newlines cs)"

definition ascii_decode :: "string \<Rightarrow> py_error + string" where
  "ascii_decode bytes =
     (if list_all (\<lambda>c. of_char c < (128::nat)) bytes then Inr (translate_newlines bytes)
      else Inl UnicodeDecodeError)"

text \<open>
  A process with an empty environment, three local files and one bucket holding one
  object of three bytes. The first file is five letters, the second has a DOS line end
  (four bytes, read as three characters), the third is two bytes that are no text. The
  store's client reports the length of what it read. The second state differs in the
  client's report, which is one short.
\<close>

definition world0 :: world where
  "world0 =
     \<lparr>environ = Map.empty, env_trace = [], stdout = [],
      files = [''data.bin'' \<mapsto> ''hello'',
               ''dos.txt'' \<mapsto> [CHR ''a'', CHR 0x0D, CHR ''\<newline>'', CHR ''b''],
               ''raw.bin'' \<mapsto> [CHR 0xFF, CHR 0xFE]],
      text_decode = ascii_decode,
      handles = [],
      buckets = [''jobs'' \<mapsto> [''result.bin'' \<mapsto> \<lparr>body = ''abc'', metadata = []\<rparr>]],
      sent_report = (\<lambda>text. Some (length text))\<rparr>"

definition world_short :: world where
  "world_short = world0\<lparr>sent_report := (\<lambda>text. Some (length text - 1))\<rparr>"

text \<open>A process that holds one open file object, with descriptor 0.\<close>

definition world_fd :: world where
  "world_fd = world0\<lparr>handles := [\<lparr>content = ''hello'', pos = 2, closed = False\<rparr>]\<rparr>"

definition eu_host :: host_arg where
  "eu_host = Host ''s3.eu-central-1.amazonaws.com''"

definition us_host :: host_arg where
  "us_host = Host ''s3.amazonaws.com''"

section \<open>Properties of the script composer and the command builder\<close>

subsection \<open>Formatting the templates\<close>

text \<open>
  Scanning each template with its keyword arguments gives the text of the template with
  the fields filled in, and never raises: every field of a template has its argument.
\<close>

lemma bind_err_simps [simp]:
  "bind_err (Inr x) f = f x"
  "bind_err (Inl e) f = Inl e"
  by (simp_all add: bind_err_def)

lemma collect_map_Inr:
  assumes "\<And>x. f x = Inr (g x)"
  shows "collect (map f xs) = Inr (map g xs)"
  by (induction xs) (simp_all add: assms)

lemma format_install_line:
  "format_str ''{anaconda_path}/bin/pip install {package}''
     [(''anaconda_path'', ap), (''package'', p)] = Inr (install_line ap p)"
  by (simp add: format_str_def install_line_def)

lemma format_base_swap_tmp:
  "format_str base_swap_tmp [(''add_swap_file'', s)] = Inr (swap_block s)"
  by (simp add: format_str_def base_swap_tmp_def swap_block_def)

lemma format_base_cmd_tmp:
  "format_str base_cmd_tmp
     [(''anaconda_path'', ap), (''install_pip'', ip), (''swapfile_cmd'', sw),
      (''repo'', r), (''env'', e), (''cmd'', c)]
   = Inr (script_head ap e @ ip @ ''\<newline>'' @ sw @ ''\<newline>'' @ run_block r c)"
  by (simp add: format_str_def base_cmd_tmp_def script_head_def run_block_def)

lemma make_start_script_text:
  "make_start_script cmd repo ap env pkgs swap =
     Inr (script_head ap env @ join ''\<newline>'' (map (install_line ap) pkgs) @ ''\<newline>'' @
          (if truthy swap then swap_block (py_str swap) else '''') @ ''\<newline>'' @
          run_block repo cmd)"
proof -
  have pk: "collect (map (\<lambda>package. format_str ''{anaconda_path}/bin/pip install {package}''
               [(''anaconda_path'', ap), (''package'', package)]) pkgs)
            = Inr (map (install_line ap) pkgs)"
    by (rule collect_map_Inr) (rule format_install_line)
  show ?thesis
    unfolding make_start_script_def pk
    by (cases "pkgs = []") (simp_all add: format_base_swap_tmp format_base_cmd_tmp)
qed

text \<open>The substring test is the library's \<open>sublist\<close>.\<close>

lemma str_contains_sublist: "str_contains sub s \<longleftrightarrow> sublist sub s"
  by (induction s) (auto simp: sublist_Cons_right)

lemma str_int_examples:
  "str_int 2048 = ''2048''" "str_int (- 15) = ''-15''" "str_int 0 = ''0''"
  by (simp_all add: str_int_def str_nat.simps)

subsection \<open>Lines of a joined text\<close>

text \<open>Joining lines that hold no newline and splitting the text again gives the lines back.\<close>

lemma split_lines_not_Nil: "split_lines s \<noteq> []"
  by (induction s) (auto split: list.splits)

lemma split_lines_single:
  "CHR ''\<newline>'' \<notin> set s \<Longrightarrow> split_lines s = [s]"
  by (induction s) auto

lemma split_lines_append:
  "CHR ''\<newline>'' \<notin> set s \<Longrightarrow> split_lines (s @ CHR ''\<newline>'' # t) = s # split_lines t"
  by (induction s) auto

lemma split_lines_join:
  assumes "xs \<noteq> []" and "\<forall>x\<in>set xs. CHR ''\<newline>'' \<notin> set x"
  shows "split_lines (join ''\<newline>'' xs) = xs"
  using assms
proof (induction "''\<newline>''" xs rule: join.induct)
  case 1
  then show ?case by simp
next
  case (2 x)
  then show ?case by (simp add: split_lines_single)
next
  case (3 x y ys)
  then show ?case by (simp add: split_lines_append)
qed

subsection \<open>The claims about the composer\<close>

lemma install_line_no_newline:
  "CHR ''\<newline>'' \<notin> set ap \<Longrightarrow> CHR ''\<newline>'' \<notin> set p \<Longrightarrow>
   CHR ''\<newline>'' \<notin> set (install_line ap p)"
  by (simp add: install_line_def)

text \<open>
  Claim C4. For all arguments the composed script is the shebang line, then a body, then
  the closing block \<open>run_block repo cmd\<close>: the command is the last statement of the
  script, run in \<open>/home/ubuntu/github/<repo>\<close> (the home directory of the image's user
  \<open>ubuntu\<close>) after \<open>git pull origin master\<close>. The composer never raises.
\<close>

theorem make_start_script_shebang_and_command:
  "\<exists>body. make_start_script cmd repo anaconda_path env install_pip add_swap_file =
     Inr (''#!/bin/bash\<newline>'' @ body @ run_block repo cmd)"
proof -
  have "script_head anaconda_path env =
          ''#!/bin/bash\<newline>'' @ drop 12 (script_head anaconda_path env)"
    by (simp add: script_head_def)
  then show ?thesis
    by (metis make_start_script_text append.assoc)
qed

text \<open>
  Claim C6. With an empty package list the script has nothing between its head and the
  swap section but the empty line the template keeps. With a list of packages, that place
  holds \<open>anaconda_path/bin/pip install package\<close> for each package, in the list's order,
  joined by newlines; when neither the path nor a package name holds a newline, these
  are exactly as many lines as there are packages.
\<close>

theorem make_start_script_install_lines:
  "make_start_script cmd repo anaconda_path env [] add_swap_file =
     Inr (script_head anaconda_path env @ ''\<newline>'' @
          (if truthy add_swap_file then swap_block (py_str add_swap_file) else '''') @
          ''\<newline>'' @ run_block repo cmd) \<and>
   make_start_script cmd repo anaconda_path env install_pip add_swap_file =
     Inr (script_head anaconda_path env @
          join ''\<newline>'' (map (install_line anaconda_path) install_pip) @ ''\<newline>'' @
          (if truthy add_swap_file then swap_block (py_str add_swap_file) else '''') @
          ''\<newline>'' @ run_block repo cmd) \<and>
   (install_pip \<noteq> [] \<and> CHR ''\<newline>'' \<notin> set anaconda_path \<and>
    (\<forall>package\<in>set install_pip. CHR ''\<newline>'' \<notin> set package) \<longrightarrow>
    split_lines (join ''\<newline>'' (map (install_line anaconda_path) install_pip)) =
      map (install_line anaconda_path) install_pip)"
proof -
  have "split_lines (join ''\<newline>'' (map (install_line anaconda_path) install_pip)) =
          map (install_line anaconda_path) install_pip"
    if "install_pip \<noteq> []" and "CHR ''\<newline>'' \<notin> set anaconda_path"
      and "\<forall>package\<in>set install_pip. CHR ''\<newline>'' \<notin> set package"
    using that by (intro split_lines_join) (auto simp: install_line_no_newline)
  then show ?thesis
    by (simp add: make_start_script_text)
qed

theorem make_start_script_install_lines_witness:
  \<open>make_start_script ''python train.py'' ''myrepo'' ''miniconda3'' ''py38''
     [''numpy'', ''mne''] (SwapBool False) =
     Inr (script_head ''miniconda3'' ''py38'' @
          ''miniconda3/bin/pip install numpy\<newline>'' @
          ''miniconda3/bin/pip install mne\<newline>'' @
          ''\<newline>'' @ run_block ''myrepo'' ''python train.py'') \<and>
   split_lines (''miniconda3/bin/pip install numpy\<newline>'' @
                ''miniconda3/bin/pip install mne'') =
     [''miniconda3/bin/pip install numpy'', ''miniconda3/bin/pip install mne'']\<close>
  using make_start_script_install_lines
    [of "''python train.py''" "''myrepo''" "''miniconda3''" "''py38''" "SwapBool False"
        "[''numpy'', ''mne'']"]
  by (simp add: install_line_def)

text \<open>
  Claim C7. A swap-file argument that is \<open>False\<close> (the default) or \<open>0\<close> gives no swap
  block. An integer \<open>n\<close> other than zero gives the fixed block with \<open>count=\<close> followed by
  the decimal digits of \<open>n\<close>. The argument \<open>True\<close> gives the block with \<open>count=True\<close>.
\<close>

theorem make_start_script_swap_block:
  "make_start_script cmd repo anaconda_path env install_pip (SwapBool False) =
     Inr (script_head anaconda_path env @
          join ''\<newline>'' (map (install_line anaconda_path) install_pip) @
          ''\<newline>'' @ ''\<newline>'' @ run_block repo cmd) \<and>
   make_start_script cmd repo anaconda_path env install_pip (SwapInt 0) =
     Inr (script_head anaconda_path env @
          join ''\<newline>'' (map (install_line anaconda_path) install_pip) @
          ''\<newline>'' @ ''\<newline>'' @ run_block repo cmd) \<and>
   make_start_script cmd repo anaconda_path env install_pip (SwapInt n) =
     Inr (script_head anaconda_path env @
          join ''\<newline>'' (map (install_line anaconda_path) install_pip) @
          ''\<newline>'' @ (if n = 0 then '''' else swap_block (str_int n)) @
          ''\<newline>'' @ run_block repo cmd) \<and>
   make_start_script cmd repo anaconda_path env install_pip (SwapBool True) =
     Inr (script_head anaconda_path env @
          join ''\<newline>'' (map (install_line anaconda_path) install_pip) @
          ''\<newline>'' @ swap_block ''True'' @
          ''\<newline>'' @ run_block repo cmd)"
  by (simp add: make_start_script_text)

theorem make_start_script_swap_block_witness:
  \<open>make_start_script ''python train.py'' ''myrepo'' ''miniconda3'' ''py38'' [] (SwapInt 2048) =
     Inr (script_head ''miniconda3'' ''py38'' @ ''\<newline>'' @
          ''echo "making swap file ..."\<newline>'' @
          ''sudo chown ubuntu /mnt\<newline>'' @
          ''sudo dd if=/dev/zero of=/mnt/swapfile bs=1M count=2048\<newline>'' @
          ''sudo chown root:root /mnt/swapfile\<newline>'' @
          ''sudo chmod 600 /mnt/swapfile\<newline>'' @
          ''sudo mkswap /mnt/swapfile\<newline>'' @
          ''sudo swapon /mnt/swapfile\<newline>'' @
          ''echo "/mnt/swapfile swap swap defaults 0 0" | sudo tee -a /etc/fstab\<newline>'' @
          ''sudo swapon -a\<newline>'' @
          ''echo "making swap file ... done"\<newline>'' @
          ''\<newline>'' @ run_block ''myrepo'' ''python train.py'')\<close>
  using make_start_script_swap_block
    [of "''python train.py''" "''myrepo''" "''miniconda3''" "''py38''" "[]" 2048]
  by (simp add: swap_block_def str_int_def str_nat.simps)

text \<open>The specification's example, for claim C4.\<close>

theorem make_start_script_shebang_and_command_witness:
  \<open>(\<exists>body. make_start_script ''python train.py'' ''myrepo'' ''miniconda3'' ''py38'' []
              (SwapBool False) =
            Inr (''#!/bin/bash\<newline>'' @ body @ run_block ''myrepo'' ''python train.py'')) \<and>
   run_block ''myrepo'' ''python train.py'' =
     ''(cd /home/ubuntu/github/myrepo '' @ [CHR 0x5C] @ ''\<newline>'' @
     ''  && git pull origin master '' @ [CHR 0x5C] @ ''\<newline>'' @
     ''  && echo "updating code ... done" '' @ [CHR 0x5C] @ ''\<newline>'' @
     ''  && python train.py)\<newline>''\<close>
  using make_start_script_shebang_and_command
    [of "''python train.py''" "''myrepo''" "''miniconda3''" "''py38''" "[]" "SwapBool False"]
  by (simp add: run_block_def)

text \<open>The whole script of the specification's example.\<close>

lemma make_start_script_example:
  \<open>make_start_script ''python train.py'' ''myrepo'' ''miniconda3'' ''py38'' [] (SwapBool False) =
     Inr (''#!/bin/bash\<newline>'' @
          ''echo "updating code ..."\<newline>'' @
          ''source /home/ubuntu/.bashrc\<newline>'' @
          ''source /home/ubuntu/miniconda3/bin/activate py38\<newline>'' @
          ''\<newline>'' @
          ''\<newline>'' @
          ''(cd /home/ubuntu/github/myrepo '' @ [CHR 0x5C] @ ''\<newline>'' @
          ''  && git pull origin master '' @ [CHR 0x5C] @ ''\<newline>'' @
          ''  && echo "updating code ... done" '' @ [CHR 0x5C] @ ''\<newline>'' @
          ''  && python train.py)\<newline>'')\<close>
  by (simp add: make_start_script_def format_str_def base_cmd_tmp_def)

subsection \<open>The claim about the command builder\<close>

lemma format_flag:
  "format_str ''--{param} {value}'' [(''param'', p), (''value'', v)] = Inr (''--'' @ p @ '' '' @ v)"
  by (simp add: format_str_def)

text \<open>
  Claim C8. The command is \<open>python run_parallel.py\<close> followed by one flag
  \<open>--name value\<close> per item of the mapping, in the order of the items, separated by
  single spaces. Under the name \<open>par_args\<close> the value is its elements joined by spaces
  (the characters, if the value is a string); under any other name a string stands as it
  is and a list as \<open>str\<close> renders it.
\<close>

theorem get_run_parallel_script_flags:
  "get_run_parallel_script list_str parallel_args =
     Inr (''python run_parallel.py '' @
          join '' ''
            (map (\<lambda>(param, value).
                    ''--'' @ param @ '' '' @
                    (case value of
                       PyList xs \<Rightarrow> if param = ''par_args'' then join '' '' xs else list_str xs
                     | PyStr s \<Rightarrow>
                         if param = ''par_args'' then join '' '' (map (\<lambda>c. [c]) s) else s))
               parallel_args))"
proof -
  have "collect (map (\<lambda>(param, value).
          format_str ''--{param} {value}''
            [(''param'', param),
             (''value'', if param = ''par_args'' then join '' '' (elements value)
                         else format_value list_str value)]) parallel_args)
        = Inr (map (\<lambda>(param, value).
                    ''--'' @ param @ '' '' @
                    (case value of
                       PyList xs \<Rightarrow> if param = ''par_args'' then join '' '' xs else list_str xs
                     | PyStr s \<Rightarrow>
                         if param = ''par_args'' then join '' '' (map (\<lambda>c. [c]) s) else s))
               parallel_args)"
    by (rule collect_map_Inr) (auto simp: format_flag split: py_value.splits)
  then show ?thesis
    by (simp add: get_run_parallel_script_def)
qed

theorem get_run_parallel_script_flags_witness:
  "get_run_parallel_script (\<lambda>xs. ''['' @ join '', '' xs @ '']'')
     [(''n_jobs'', PyStr ''4''), (''par_args'', PyList [''s01'', ''s02'', ''s03'']),
      (''script'', PyStr ''compute.py'')] =
   Inr ''python run_parallel.py --n_jobs 4 --par_args s01 s02 s03 --script compute.py''"
  using get_run_parallel_script_flags
    [of "\<lambda>xs. ''['' @ join '', '' xs @ '']''"
        "[(''n_jobs'', PyStr ''4''), (''par_args'', PyList [''s01'', ''s02'', ''s03'']),
          (''script'', PyStr ''compute.py'')]"]
  by simp

section \<open>Properties of the object transfer\<close>

subsection \<open>What each step leaves unchanged\<close>

lemma setenv_simps [simp]:
  "environ (setenv w k v) = (environ w)(k \<mapsto> v)"
  "env_trace (setenv w k v) = env_trace w @ [EnvSet k v]"
  "stdout (setenv w k v) = stdout w"
  "files (setenv w k v) = files w"
  "text_decode (setenv w k v) = text_decode w"
  "handles (setenv w k v) = handles w"
  "buckets (setenv w k v) = buckets w"
  "sent_report (setenv w k v) = sent_report w"
  by (simp_all add: setenv_def)

lemma print_line_simps [simp]:
  "environ (print_line w s) = environ w"
  "env_trace (print_line w s) = env_trace w"
  "files (print_line w s) = files w"
  "handles (print_line w s) = handles w"
  "buckets (print_line w s) = buckets w"
  by (simp_all add: print_line_def)

lemma get_contents_to_filename_simps [simp]:
  "environ (get_contents_to_filename w obj fname) = environ w"
  "env_trace (get_contents_to_filename w obj fname) = env_trace w"
  "files (get_contents_to_filename w obj fname) = (files w)(fname \<mapsto> body obj)"
  "handles (get_contents_to_filename w obj fname) = handles w"
  by (simp_all add: get_contents_to_filename_def)

lemma store_after_setenv [simp]:
  "key_exists (setenv w k v) bucket key = key_exists w bucket key"
  "get_key (setenv w k v) bucket key = get_key w bucket key"
  "get_bucket_validate (setenv w k v) bucket = get_bucket_validate w bucket"
  "py_open (setenv w k v) fname = py_open w fname"
  by (simp_all add: key_exists_def get_key_def get_bucket_validate_def py_open_def
      split: fname_arg.splits)

lemma key_exists_get_key: "key_exists w bucket key \<longleftrightarrow> get_key w bucket key \<noteq> None"
  by (simp add: key_exists_def get_key_def split: option.splits)

lemma unset_and_return_False [simp]: "unset_and_return False out w = (Inr out, w)"
  by (simp add: unset_and_return_def)

lemma unset_and_return_set:
  "environ w ''S3_USE_SIGV4'' = Some v \<Longrightarrow>
   unset_and_return True out w =
     (Inr out, w\<lparr>environ := (environ w)(''S3_USE_SIGV4'' := None),
                 env_trace := env_trace w @ [EnvDel ''S3_USE_SIGV4'']\<rparr>)"
  by (simp add: unset_and_return_def delenv_def)

lemma connect_s3_simps [simp]:
  "connect_s3 (Host h) = Inr ()"
  "connect_s3 HostNone = Inl TypeError"
  "connect_s3 NoHostProvided = Inl TypeError"
  by (simp_all add: connect_s3_def)

lemma has_region_marker_Host:
  "has_region_marker host \<longleftrightarrow> (\<exists>h. host = Host h \<and> str_contains ''eu-central'' h)"
  by (auto simp: has_region_marker_def split: host_arg.splits)

lemma switch_download_cases:
  "switch_download w host =
     (if has_region_marker host
      then (True, setenv w ''S3_USE_SIGV4'' ''True'') else (False, w))"
  by (auto simp: switch_download_def has_region_marker_def split: host_arg.splits)

lemma switch_upload_cases:
  "switch_upload w host =
     (if host = NoHostProvided then (Inl TypeError, w)
      else if has_region_marker host
      then (Inr True, setenv w ''S3_USE_SIGV4'' ''True'') else (Inr False, w))"
  by (auto simp: switch_upload_def has_region_marker_def split: host_arg.splits)

subsection \<open>The \<open>with\<close> block\<close>

text \<open>
  For a path string the descriptor query raises, so the size is measured by seeking the
  opened file object to its end. The block raises IOError when no file is there and the
  text layer's exception when the file cannot be read as text; otherwise it yields the
  client's count and the number of the file's bytes, stores what was read and leaves the
  file object at position 0, closed. For a file object \<open>open\<close> raises TypeError.
\<close>

lemma primary_size_path [simp]: "primary_size w (PathStr p) = Inl AttributeError"
  by (simp add: primary_size_def fileno_def)

lemma fallback_size_eq:
  "fallback_size fid =
     (if closed fid then Inl ValueError
      else Inr (length (content fid), fid\<lparr>pos := length (content fid)\<rparr>))"
  by (simp add: fallback_size_def seek_end_def tell_def)

lemma py_open_path:
  "py_open w (PathStr p) =
     (case files w p of
        None \<Rightarrow> Inl IOError
      | Some bytes \<Rightarrow> Inr \<lparr>content = bytes, pos = 0, closed = False\<rparr>)"
  by (simp add: py_open_def)

lemma py_open_Inr:
  "py_open w fname = Inr fid \<longleftrightarrow>
     (\<exists>p bytes. fname = PathStr p \<and> files w p = Some bytes \<and>
        fid = \<lparr>content = bytes, pos = 0, closed = False\<rparr>)"
  by (auto simp: py_open_def split: fname_arg.splits option.splits)

lemma set_contents_from_file_rewinds:
  "\<not> closed fid \<Longrightarrow>
   set_contents_from_file w bucket key meta fid =
     (case text_decode w (content fid) of
        Inl e \<Rightarrow> Inl e
      | Inr chars \<Rightarrow>
          Inr (sent_report w chars, fid\<lparr>pos := length (content fid)\<rparr>,
               w\<lparr>buckets := (buckets w)(bucket \<mapsto>
                    (case buckets w bucket of None \<Rightarrow> Map.empty | Some objs \<Rightarrow> objs)
                    (key \<mapsto> \<lparr>body = chars, metadata = meta\<rparr>))\<rparr>))"
  by (simp add: set_contents_from_file_def seek_def read_rest_def split: sum.splits)

lemma with_open_path:
  "with_open w (PathStr p) bucket key meta =
     (case files w p of
        None \<Rightarrow> (Inl IOError, w)
      | Some bytes \<Rightarrow>
          (case text_decode w bytes of
             Inl e \<Rightarrow>
               (Inl e,
                w\<lparr>handles := handles w @
                     [\<lparr>content = bytes, pos = length bytes, closed = True\<rparr>]\<rparr>)
           | Inr chars \<Rightarrow>
               (Inr (sent_report w chars, length bytes),
                w\<lparr>buckets := (buckets w)(bucket \<mapsto>
                      (case buckets w bucket of None \<Rightarrow> Map.empty | Some objs \<Rightarrow> objs)
                      (key \<mapsto> \<lparr>body = chars, metadata = meta\<rparr>)),
                   handles := handles w @ [\<lparr>content = bytes, pos = 0, closed = True\<rparr>]\<rparr>)))"
  by (simp add: with_open_def py_open_def measure_size_def fallback_size_eq
      set_contents_from_file_rewinds seek_def close_def split: option.splits sum.splits)

lemma with_open_file_object:
  "with_open w (FileObj fd) bucket key meta = (Inl TypeError, w)"
  by (simp add: with_open_def py_open_def)

lemma with_open_environ [simp]:
  "environ (snd (with_open w fname bucket key meta)) = environ w"
  "env_trace (snd (with_open w fname bucket key meta)) = env_trace w"
  by (cases fname;
      simp add: with_open_path with_open_file_object split: option.splits sum.splits)+

lemma with_open_frame:
  "with_open w fname bucket key meta = (r, w') \<Longrightarrow>
   environ w' = environ w \<and> env_trace w' = env_trace w"
  by (metis snd_conv with_open_environ)

subsection \<open>Download, by host\<close>

text \<open>
  The whole result of a download: for a host that is no string, for a host string without
  the region marker, and for a host string with it. In the last, the dry-run branch
  returns the state in which the flag was set; the two other branches return after the
  deletion.
\<close>

lemma download_no_host_string:
  "download_from_s3 w bucket fname key dry_run HostNone = (Inl TypeError, w)"
  "download_from_s3 w bucket fname key dry_run NoHostProvided = (Inl TypeError, w)"
  by (simp_all add: download_from_s3_def switch_download_def)

lemma download_without_marker:
  "\<not> has_region_marker (Host h) \<Longrightarrow>
   download_from_s3 w bucket fname key dry_run (Host h) =
     (case get_key w bucket key of
        None \<Rightarrow>
          (Inr False, print_line w (''could not get '' @ key @ '' : it does not exist''))
      | Some obj \<Rightarrow>
          if dry_run then (Inr True, w)
          else (Inr True, get_contents_to_filename w obj fname))"
  by (simp add: download_from_s3_def switch_download_cases key_exists_get_key
      split: option.splits)

lemma download_with_marker:
  "has_region_marker host \<Longrightarrow>
   download_from_s3 w bucket fname key dry_run host =
     (case get_key w bucket key of
        None \<Rightarrow>
          (Inr False,
           (print_line (setenv w ''S3_USE_SIGV4'' ''True'')
              (''could not get '' @ key @ '' : it does not exist''))
           \<lparr>environ := (environ w)(''S3_USE_SIGV4'' := None),
            env_trace := env_trace w @
              [EnvSet ''S3_USE_SIGV4'' ''True'', EnvDel ''S3_USE_SIGV4'']\<rparr>)
      | Some obj \<Rightarrow>
          if dry_run then (Inr True, setenv w ''S3_USE_SIGV4'' ''True'')
          else
            (Inr True,
             (get_contents_to_filename (setenv w ''S3_USE_SIGV4'' ''True'') obj fname)
             \<lparr>environ := (environ w)(''S3_USE_SIGV4'' := None),
              env_trace := env_trace w @
                [EnvSet ''S3_USE_SIGV4'' ''True'', EnvDel ''S3_USE_SIGV4'']\<rparr>))"
  by (auto simp: download_from_s3_def switch_download_cases key_exists_get_key
      has_region_marker_Host unset_and_return_set [where v = "''True''"] split: option.splits)

subsection \<open>Upload, by host\<close>

lemma upload_no_host_string:
  "upload_to_s3 w fname bucket key content_type HostNone = (Inl TypeError, w)"
  "upload_to_s3 w fname bucket key content_type NoHostProvided = (Inl TypeError, w)"
  by (simp_all add: upload_to_s3_def switch_upload_def)

lemma upload_without_marker:
  "\<not> has_region_marker (Host h) \<Longrightarrow>
   upload_to_s3 w fname bucket key content_type (Host h) =
     (case buckets w bucket of
        None \<Rightarrow> (Inl S3ResponseError, w)
      | Some objs \<Rightarrow>
          (case with_open w fname bucket key (content_type_metadata content_type) of
             (Inl e, w2) \<Rightarrow> (Inl e, w2)
           | (Inr (sent, sz), w2) \<Rightarrow> (Inr (sent = Some sz), w2)))"
  by (simp add: upload_to_s3_def switch_upload_cases get_bucket_validate_def
      split: option.splits prod.splits sum.splits)

lemma upload_path:
  assumes "buckets w bucket = Some objs" and "files w p = Some bytes"
    and "text_decode w bytes = Inr chars"
  shows "fst (upload_to_s3 w (PathStr p) bucket key content_type (Host h)) =
           Inr (sent_report w chars = Some (length bytes))"
    and "handles (snd (upload_to_s3 w (PathStr p) bucket key content_type (Host h))) =
           handles w @ [\<lparr>content = bytes, pos = 0, closed = True\<rparr>]"
    and "get_key (snd (upload_to_s3 w (PathStr p) bucket key content_type (Host h))) bucket key =
           Some \<lparr>body = chars, metadata = content_type_metadata content_type\<rparr>"
    and "has_region_marker (Host h) \<Longrightarrow>
         environ (snd (upload_to_s3 w (PathStr p) bucket key content_type (Host h))) =
           (environ w)(''S3_USE_SIGV4'' := None) \<and>
         env_trace (snd (upload_to_s3 w (PathStr p) bucket key content_type (Host h))) =
           env_trace w @ [EnvSet ''S3_USE_SIGV4'' ''True'', EnvDel ''S3_USE_SIGV4'']"
  using assms
  by (cases "has_region_marker (Host h)";
      simp add: upload_to_s3_def switch_upload_cases get_bucket_validate_def with_open_path
        get_key_def unset_and_return_def delenv_def)+

lemma upload_unreadable:
  assumes "buckets w bucket = Some objs" and "files w p = Some bytes"
    and "text_decode w bytes = Inl e"
  shows "fst (upload_to_s3 w (PathStr p) bucket key content_type (Host h)) = Inl e"
  using assms
  by (cases "has_region_marker (Host h)";
      simp add: upload_to_s3_def switch_upload_cases get_bucket_validate_def with_open_path)

lemma upload_returns_only_for_a_path:
  "fst (upload_to_s3 w fname bucket key content_type host) = Inr b \<Longrightarrow>
   (\<exists>h. host = Host h) \<and> buckets w bucket \<noteq> None \<and>
   (\<exists>p bytes chars. fname = PathStr p \<and> files w p = Some bytes \<and>
      text_decode w bytes = Inr chars)"
  by (cases fname; cases host; cases "has_region_marker host")
     (auto simp: upload_to_s3_def switch_upload_cases get_bucket_validate_def with_open_path
        with_open_file_object split: option.splits if_splits sum.splits)

text \<open>
  The part of claim C1 that holds: a region-triggering upload that returns has set the
  flag and has deleted it, and so has a region-triggering download on its two paths that
  are not the dry-run return.
\<close>

lemma upload_flag_unset_after_return:
  assumes "has_region_marker host"
    and "fst (upload_to_s3 w fname bucket key content_type host) = Inr b"
  shows "environ (snd (upload_to_s3 w fname bucket key content_type host)) ''S3_USE_SIGV4'' = None"
    and "EnvSet ''S3_USE_SIGV4'' ''True'' \<in>
           set (env_trace (snd (upload_to_s3 w fname bucket key content_type host)))"
proof -
  from upload_returns_only_for_a_path [OF assms(2)]
  obtain h p bytes chars objs where *: "buckets w bucket = Some objs" "files w p = Some bytes"
    "text_decode w bytes = Inr chars" "fname = PathStr p" "host = Host h"
    by auto
  from upload_path(4) [OF *(1,2,3), of h key content_type] assms(1)
  show "environ (snd (upload_to_s3 w fname bucket key content_type host)) ''S3_USE_SIGV4'' = None"
    and "EnvSet ''S3_USE_SIGV4'' ''True'' \<in>
           set (env_trace (snd (upload_to_s3 w fname bucket key content_type host)))"
    by (simp_all add: *(4,5))
qed

lemma download_flag_after_return:
  assumes "has_region_marker host"
  shows "environ (snd (download_from_s3 w bucket fname key dry_run host)) ''S3_USE_SIGV4'' =
           (if get_key w bucket key \<noteq> None \<and> dry_run then Some ''True'' else None)"
  by (simp add: download_with_marker [OF assms] split: option.splits)

subsection \<open>The claims about the transfer\<close>

lemma has_region_marker_examples [simp]:
  "has_region_marker eu_host" "\<not> has_region_marker us_host" "\<not> has_region_marker HostNone"
  "\<not> has_region_marker NoHostProvided"
  by (simp_all add: has_region_marker_def eu_host_def us_host_def)

lemma ascii_decode_examples [simp]:
  "ascii_decode ''hello'' = Inr ''hello''"
  "ascii_decode [CHR ''a'', CHR 0x0D, CHR ''\<newline>'', CHR ''b''] = Inr ''a\<newline>b''"
  "ascii_decode [CHR 0xFF, CHR 0xFE] = Inl UnicodeDecodeError"
  by (simp_all add: ascii_decode_def)

lemma world0_simps [simp]:
  "environ world0 = Map.empty" "env_trace world0 = []"
  "files world0 ''data.bin'' = Some ''hello''"
  "files world0 ''dos.txt'' = Some [CHR ''a'', CHR 0x0D, CHR ''\<newline>'', CHR ''b'']"
  "files world0 ''raw.bin'' = Some [CHR 0xFF, CHR 0xFE]"
  "text_decode world0 = ascii_decode"
  "handles world0 = []"
  "get_key world0 ''jobs'' ''result.bin'' = Some \<lparr>body = ''abc'', metadata = []\<rparr>"
  "get_key world0 ''jobs'' ''missing.bin'' = None"
  "buckets world0 ''jobs'' = Some [''result.bin'' \<mapsto> \<lparr>body = ''abc'', metadata = []\<rparr>]"
  "sent_report world0 = (\<lambda>chars. Some (length chars))"
  by (simp_all add: world0_def get_key_def)

lemma world_short_simps [simp]:
  "files world_short = files world0"
  "text_decode world_short = ascii_decode"
  "buckets world_short = buckets world0"
  "sent_report world_short = (\<lambda>chars. Some (length chars - 1))"
  by (simp_all add: world_short_def world0_def)

lemma world_fd_simps [simp]:
  "handles world_fd = [\<lparr>content = ''hello'', pos = 2, closed = False\<rparr>]"
  by (simp add: world_fd_def)

text \<open>
  Claim C1 fails on the dry-run return of \<open>download_from_s3\<close>. With a region-triggering
  host, an existing key and \<open>dry_run\<close> true, the call returns True from line 97, before
  the deletion of lines 101 and 102: the flag, unset before the call, is set to
  \<open>'True'\<close> after it.
\<close>

theorem download_dry_run_leaves_flag_set:
  "has_region_marker eu_host \<and>
   environ world0 ''S3_USE_SIGV4'' = None \<and>
   fst (download_from_s3 world0 ''jobs'' ''out.bin'' ''result.bin'' True eu_host) = Inr True \<and>
   environ (snd (download_from_s3 world0 ''jobs'' ''out.bin'' ''result.bin'' True eu_host))
     ''S3_USE_SIGV4'' = Some ''True''"
  by (simp add: download_with_marker)

text \<open>
  Claim C2. With a host string, a download of a key that the bucket does not hold returns
  False and leaves the local files as they were. A download of a key that it holds
  returns True; with \<open>dry_run\<close> the local files are as they were, without it the
  destination path holds the object's bytes and no other path has changed. (With a host
  that is no string the connection raises, see \<open>download_no_host_string\<close>.)
\<close>

theorem download_outcomes:
  "(get_key w bucket key = None \<longrightarrow>
      fst (download_from_s3 w bucket fname key dry_run (Host h)) = Inr False \<and>
      files (snd (download_from_s3 w bucket fname key dry_run (Host h))) = files w) \<and>
   (get_key w bucket key = Some obj \<longrightarrow>
      fst (download_from_s3 w bucket fname key True (Host h)) = Inr True \<and>
      files (snd (download_from_s3 w bucket fname key True (Host h))) = files w \<and>
      fst (download_from_s3 w bucket fname key False (Host h)) = Inr True \<and>
      files (snd (download_from_s3 w bucket fname key False (Host h))) =
        (files w)(fname \<mapsto> body obj))"
  by (cases "has_region_marker (Host h)")
     (simp_all add: download_with_marker download_without_marker)

text \<open>Claim C2 on the example state: a missing key, a dry run and a download.\<close>

theorem download_outcomes_witness:
  "get_key world0 ''jobs'' ''missing.bin'' = None \<and>
   fst (download_from_s3 world0 ''jobs'' ''out.bin'' ''missing.bin'' False us_host) = Inr False \<and>
   files (snd (download_from_s3 world0 ''jobs'' ''out.bin'' ''missing.bin'' False us_host)) =
     files world0 \<and>
   get_key world0 ''jobs'' ''result.bin'' = Some \<lparr>body = ''abc'', metadata = []\<rparr> \<and>
   fst (download_from_s3 world0 ''jobs'' ''out.bin'' ''result.bin'' True us_host) = Inr True \<and>
   files (snd (download_from_s3 world0 ''jobs'' ''out.bin'' ''result.bin'' True us_host)) =
     files world0 \<and>
   fst (download_from_s3 world0 ''jobs'' ''out.bin'' ''result.bin'' False us_host) = Inr True \<and>
   files (snd (download_from_s3 world0 ''jobs'' ''out.bin'' ''result.bin'' False us_host)) =
     (files world0)(''out.bin'' \<mapsto> ''abc'')"
  using download_outcomes [where w = world0 and bucket = "''jobs''" and key = "''missing.bin''"
      and fname = "''out.bin''" and dry_run = False and h = "''s3.amazonaws.com''"]
    download_outcomes [where w = world0 and bucket = "''jobs''" and key = "''result.bin''"
      and obj = "\<lparr>body = ''abc'', metadata = []\<rparr>" and fname = "''out.bin''"
      and h = "''s3.amazonaws.com''"]
  by (simp add: us_host_def)

text \<open>
  Claim C3. An upload of an existing local file to an existing bucket, with a host string,
  raises only if reading the file as text raises. Otherwise it returns a boolean, which
  is True exactly when the count the client reports is the size measured on the opened
  file, the number of the file's bytes: a mismatch is the value False, not an exception.
\<close>

theorem upload_success_iff_sent_equals_size:
  assumes "buckets w bucket = Some objs" and "files w p = Some bytes"
  shows "measure_size w (PathStr p) \<lparr>content = bytes, pos = 0, closed = False\<rparr> =
           Inr (length bytes, \<lparr>content = bytes, pos = length bytes, closed = False\<rparr>) \<and>
         fst (upload_to_s3 w (PathStr p) bucket key content_type (Host h)) =
           (case text_decode w bytes of
              Inl e \<Rightarrow> Inl e
            | Inr chars \<Rightarrow> Inr (sent_report w chars = Some (length bytes)))"
proof (cases "text_decode w bytes")
  case (Inl e)
  with upload_unreadable [OF assms Inl] show ?thesis
    by (simp add: measure_size_def fallback_size_eq)
next
  case (Inr chars)
  with upload_path(1) [OF assms Inr] show ?thesis
    by (simp add: measure_size_def fallback_size_eq)
qed

text \<open>
  Claim C3 on a client that reports every character, on one that reports one less, on a
  file with a DOS line end (four bytes measured, three characters sent) and on a file
  that is no text.
\<close>

theorem upload_success_iff_sent_equals_size_witness:
  "fst (upload_to_s3 world0 (PathStr ''data.bin'') ''jobs'' ''copy.bin'' None eu_host) = Inr True \<and>
   fst (upload_to_s3 world_short (PathStr ''data.bin'') ''jobs'' ''copy.bin'' None eu_host) =
     Inr False \<and>
   fst (upload_to_s3 world0 (PathStr ''dos.txt'') ''jobs'' ''copy.bin'' None eu_host) = Inr False \<and>
   fst (upload_to_s3 world0 (PathStr ''raw.bin'') ''jobs'' ''copy.bin'' None eu_host) =
     Inl UnicodeDecodeError"
  using upload_success_iff_sent_equals_size
      [where w = world0 and bucket = "''jobs''" and p = "''data.bin''"
         and objs = "[''result.bin'' \<mapsto> \<lparr>body = ''abc'', metadata = []\<rparr>]"
         and bytes = "''hello''" and key = "''copy.bin''" and content_type = None
         and h = "''s3.eu-central-1.amazonaws.com''"]
    upload_success_iff_sent_equals_size
      [where w = world_short and bucket = "''jobs''" and p = "''data.bin''"
         and objs = "[''result.bin'' \<mapsto> \<lparr>body = ''abc'', metadata = []\<rparr>]"
         and bytes = "''hello''" and key = "''copy.bin''" and content_type = None
         and h = "''s3.eu-central-1.amazonaws.com''"]
    upload_success_iff_sent_equals_size
      [where w = world0 and bucket = "''jobs''" and p = "''dos.txt''"
         and objs = "[''result.bin'' \<mapsto> \<lparr>body = ''abc'', metadata = []\<rparr>]"
         and bytes = "[CHR ''a'', CHR 0x0D, CHR ''\<newline>'', CHR ''b'']" and key = "''copy.bin''"
         and content_type = None and h = "''s3.eu-central-1.amazonaws.com''"]
    upload_success_iff_sent_equals_size
      [where w = world0 and bucket = "''jobs''" and p = "''raw.bin''"
         and objs = "[''result.bin'' \<mapsto> \<lparr>body = ''abc'', metadata = []\<rparr>]"
         and bytes = "[CHR 0xFF, CHR 0xFE]" and key = "''copy.bin''"
         and content_type = None and h = "''s3.eu-central-1.amazonaws.com''"]
  by (simp add: eu_host_def)

text \<open>
  Claim C9. A transfer whose host does not hold the region marker (a string without it,
  \<open>None\<close>, or \<open>NoHostProvided\<close>) makes no assignment to the environment and no deletion
  from it: the trace of both is as before the call, and so is the environment, whether
  the call returns or raises.
\<close>

theorem transfer_without_marker_keeps_environment:
  assumes "\<not> has_region_marker host"
  shows "environ (snd (download_from_s3 w bucket fname key dry_run host)) = environ w \<and>
         env_trace (snd (download_from_s3 w bucket fname key dry_run host)) = env_trace w \<and>
         environ (snd (upload_to_s3 w src_file bucket key content_type host)) = environ w \<and>
         env_trace (snd (upload_to_s3 w src_file bucket key content_type host)) = env_trace w"
proof (cases host)
  case HostNone
  then show ?thesis by (simp add: download_no_host_string upload_no_host_string)
next
  case NoHostProvided
  then show ?thesis by (simp add: download_no_host_string upload_no_host_string)
next
  case (Host h)
  with assms have nm: "\<not> has_region_marker (Host h)" by simp
  have "environ (snd (download_from_s3 w bucket fname key dry_run (Host h))) = environ w"
    and "env_trace (snd (download_from_s3 w bucket fname key dry_run (Host h))) = env_trace w"
    by (simp_all add: download_without_marker [OF nm] split: option.splits)
  moreover
  have "environ (snd (upload_to_s3 w src_file bucket key content_type (Host h))) = environ w"
    and "env_trace (snd (upload_to_s3 w src_file bucket key content_type (Host h))) = env_trace w"
    by (auto simp: upload_without_marker [OF nm] dest: with_open_frame
        split: option.splits prod.splits sum.splits)
  ultimately show ?thesis using Host by simp
qed

text \<open>Claim C9 on a download from the default host and an upload with host \<open>None\<close>.\<close>

theorem transfer_without_marker_keeps_environment_witness:
  "\<not> has_region_marker us_host \<and> \<not> has_region_marker HostNone \<and>
   environ (snd (download_from_s3 world0 ''jobs'' ''out.bin'' ''result.bin'' False us_host)) =
     environ world0 \<and>
   env_trace (snd (download_from_s3 world0 ''jobs'' ''out.bin'' ''result.bin'' False us_host)) =
     env_trace world0 \<and>
   environ (snd (upload_to_s3 world0 (PathStr ''data.bin'') ''jobs'' ''copy.bin'' None HostNone)) =
     environ world0 \<and>
   env_trace (snd (upload_to_s3 world0 (PathStr ''data.bin'') ''jobs'' ''copy.bin'' None HostNone)) =
     env_trace world0"
  using transfer_without_marker_keeps_environment
      [where host = us_host and w = world0 and bucket = "''jobs''" and fname = "''out.bin''"
         and key = "''result.bin''" and dry_run = False]
    transfer_without_marker_keeps_environment
      [where host = HostNone and w = world0 and src_file = "PathStr ''data.bin''"
         and bucket = "''jobs''" and key = "''copy.bin''" and content_type = None]
  by simp

text \<open>
  Claim C10. When \<open>fname\<close> is a path string, \<open>fname.fileno()\<close> raises AttributeError, so
  the primary query raises and the \<open>except\<close> branch measures the size. For an existing
  file, the \<open>with\<close> block and the whole upload are the transfer run on the file object
  that \<open>open\<close> returned, after \<open>fallback_size\<close> has sought it to its end, and the size
  compared with the client's count is the one \<open>fallback_size\<close> read there: the number
  of the file's bytes.
\<close>

theorem upload_path_string_size_is_seek_measure:
  "fileno w (PathStr p) = Inl AttributeError \<and>
   primary_size w (PathStr p) = Inl AttributeError \<and>
   measure_size w (PathStr p) fid = fallback_size fid \<and>
   fallback_size fid =
     (if closed fid then Inl ValueError
      else Inr (length (content fid), fid\<lparr>pos := length (content fid)\<rparr>)) \<and>
   (files w p = Some bytes \<longrightarrow>
      py_open w (PathStr p) = Inr \<lparr>content = bytes, pos = 0, closed = False\<rparr> \<and>
      fallback_size \<lparr>content = bytes, pos = 0, closed = False\<rparr> =
        Inr (length bytes, \<lparr>content = bytes, pos = length bytes, closed = False\<rparr>) \<and>
      fst (with_open w (PathStr p) bucket key meta) =
        bind_err (fallback_size \<lparr>content = bytes, pos = 0, closed = False\<rparr>)
          (\<lambda>(sz, fid1).
             bind_err (set_contents_from_file w bucket key meta fid1)
               (\<lambda>(sent, fid2, w2). Inr (sent, sz)))) \<and>
   (files w p = Some bytes \<and> buckets w bucket = Some objs \<longrightarrow>
      fst (upload_to_s3 w (PathStr p) bucket key content_type (Host h)) =
        bind_err (fallback_size \<lparr>content = bytes, pos = 0, closed = False\<rparr>)
          (\<lambda>(sz, fid1).
             bind_err (set_contents_from_file w bucket key
                         (content_type_metadata content_type) fid1)
               (\<lambda>(sent, fid2, w2). Inr (sent = Some sz))))"
proof -
  have a: "fileno w (PathStr p) = Inl AttributeError"
    by (simp add: fileno_def)
  have b: "measure_size w (PathStr p) fid = fallback_size fid"
    by (simp add: measure_size_def)
  have c: "fst (with_open w (PathStr p) bucket key meta) =
        bind_err (fallback_size \<lparr>content = bytes, pos = 0, closed = False\<rparr>)
          (\<lambda>(sz, fid1).
             bind_err (set_contents_from_file w bucket key meta fid1)
               (\<lambda>(sent, fid2, w2). Inr (sent, sz)))"
    if "files w p = Some bytes"
    using that
    by (simp add: with_open_path fallback_size_eq set_contents_from_file_rewinds
        split: sum.splits)
  have d: "fst (upload_to_s3 w (PathStr p) bucket key content_type (Host h)) =
        bind_err (fallback_size \<lparr>content = bytes, pos = 0, closed = False\<rparr>)
          (\<lambda>(sz, fid1).
             bind_err (set_contents_from_file w bucket key
                         (content_type_metadata content_type) fid1)
               (\<lambda>(sent, fid2, w2). Inr (sent = Some sz)))"
    if "files w p = Some bytes" and "buckets w bucket = Some objs"
  proof (cases "text_decode w bytes")
    case (Inl e)
    with upload_unreadable [OF that(2,1) Inl] show ?thesis
      by (simp add: fallback_size_eq set_contents_from_file_rewinds)
  next
    case (Inr chars)
    with upload_path(1) [OF that(2,1) Inr] show ?thesis
      by (simp add: fallback_size_eq set_contents_from_file_rewinds)
  qed
  show ?thesis
    using a b c d by (simp add: fallback_size_eq py_open_path)
qed

text \<open>Claim C10 on the example file of five bytes.\<close>

theorem upload_path_string_size_is_seek_measure_witness:
  "primary_size world0 (PathStr ''data.bin'') = Inl AttributeError \<and>
   py_open world0 (PathStr ''data.bin'') = Inr \<lparr>content = ''hello'', pos = 0, closed = False\<rparr> \<and>
   fallback_size \<lparr>content = ''hello'', pos = 0, closed = False\<rparr> =
     Inr (5, \<lparr>content = ''hello'', pos = 5, closed = False\<rparr>) \<and>
   fst (with_open world0 (PathStr ''data.bin'') ''jobs'' ''copy.bin'' []) = Inr (Some 5, 5) \<and>
   fst (upload_to_s3 world0 (PathStr ''data.bin'') ''jobs'' ''copy.bin'' None eu_host) = Inr True"
  using upload_path_string_size_is_seek_measure
      [where w = world0 and p = "''data.bin''" and bucket = "''jobs''" and key = "''copy.bin''"
         and meta = "[]" and fid = "\<lparr>content = ''hello'', pos = 0, closed = False\<rparr>"
         and bytes = "''hello''" and content_type = None
         and objs = "[''result.bin'' \<mapsto> \<lparr>body = ''abc'', metadata = []\<rparr>]"
         and h = "''s3.eu-central-1.amazonaws.com''"]
  by (simp add: eu_host_def set_contents_from_file_rewinds content_type_metadata_def)

text \<open>
  Claim C5 as stated fails: the file object that \<open>upload_to_s3\<close> opens is closed when the
  call returns. After an upload of the example file the process's only file object is
  closed, and seeking in it or reading from it raises ValueError.
\<close>

theorem upload_handle_closed_counterexample:
  "fst (upload_to_s3 world0 (PathStr ''data.bin'') ''jobs'' ''copy.bin'' None us_host) = Inr True \<and>
   handles world0 = [] \<and>
   handles (snd (upload_to_s3 world0 (PathStr ''data.bin'') ''jobs'' ''copy.bin'' None us_host)) =
     [\<lparr>content = ''hello'', pos = 0, closed = True\<rparr>] \<and>
   seek \<lparr>content = ''hello'', pos = 0, closed = True\<rparr> 0 = Inl ValueError \<and>
   read_rest world0 \<lparr>content = ''hello'', pos = 0, closed = True\<rparr> = Inl ValueError"
  using upload_path(1,2) [where w = world0 and bucket = "''jobs''"
      and p = "''data.bin''" and bytes = "''hello''" and chars = "''hello''"
      and key = "''copy.bin''" and content_type = None and h = "''s3.amazonaws.com''"]
  by (simp add: us_host_def seek_def read_rest_def)

text \<open>
  Claim C5 as amended. The file object is opened by \<open>upload_to_s3\<close> itself. When the
  descriptor query is unavailable, the size is the position read after seeking the opened
  file object to its end, and the transfer is handed the file object at that position.
  The transfer rewinds it: wherever the file object stands, the transfer is that of the
  file object at position 0, and the object stored is the whole file read as text. After
  the transfer the file object has been sought back to position 0, and it is closed when
  the call returns.
\<close>

theorem upload_handle_rewound_then_closed:
  "(py_open w fname = Inr fid \<and> primary_size w fname = Inl e \<longrightarrow>
      fallback_size fid = Inr (length (content fid), fid\<lparr>pos := length (content fid)\<rparr>) \<and>
      fst (with_open w fname bucket key meta) =
        bind_err (set_contents_from_file w bucket key meta
                    (fid\<lparr>pos := length (content fid)\<rparr>))
          (\<lambda>(sent, fid2, w2). Inr (sent, length (content fid)))) \<and>
   (\<not> closed fid \<longrightarrow>
      set_contents_from_file w bucket key meta fid =
        set_contents_from_file w bucket key meta (fid\<lparr>pos := 0\<rparr>)) \<and>
   (buckets w bucket = Some objs \<and> files w p = Some bytes \<and>
    text_decode w bytes = Inr chars \<longrightarrow>
      get_key (snd (upload_to_s3 w (PathStr p) bucket key content_type (Host h))) bucket key =
        Some \<lparr>body = chars, metadata = content_type_metadata content_type\<rparr> \<and>
      handles (snd (upload_to_s3 w (PathStr p) bucket key content_type (Host h))) =
        handles w @ [\<lparr>content = bytes, pos = 0, closed = True\<rparr>])"
proof -
  have a: "fallback_size fid = Inr (length (content fid), fid\<lparr>pos := length (content fid)\<rparr>) \<and>
      fst (with_open w fname bucket key meta) =
        bind_err (set_contents_from_file w bucket key meta
                    (fid\<lparr>pos := length (content fid)\<rparr>))
          (\<lambda>(sent, fid2, w2). Inr (sent, length (content fid)))"
    if "py_open w fname = Inr fid"
  proof -
    from that obtain q bs where q: "fname = PathStr q" "files w q = Some bs"
      "fid = \<lparr>content = bs, pos = 0, closed = False\<rparr>"
      by (auto simp: py_open_Inr)
    show ?thesis
      by (simp add: q with_open_path fallback_size_eq set_contents_from_file_rewinds
          split: sum.splits)
  qed
  have b: "set_contents_from_file w bucket key meta fid =
        set_contents_from_file w bucket key meta (fid\<lparr>pos := 0\<rparr>)"
    if "\<not> closed fid"
    using that by (simp add: set_contents_from_file_rewinds split: sum.splits)
  show ?thesis
    using a b by (auto simp: upload_path(2,3))
qed

text \<open>Claim C5 as amended, on the example file.\<close>

theorem upload_handle_rewound_then_closed_witness:
  "py_open world0 (PathStr ''data.bin'') = Inr \<lparr>content = ''hello'', pos = 0, closed = False\<rparr> \<and>
   primary_size world0 (PathStr ''data.bin'') = Inl AttributeError \<and>
   fallback_size \<lparr>content = ''hello'', pos = 0, closed = False\<rparr> =
     Inr (5, \<lparr>content = ''hello'', pos = 5, closed = False\<rparr>) \<and>
   fst (with_open world0 (PathStr ''data.bin'') ''jobs'' ''copy.bin'' []) = Inr (Some 5, 5) \<and>
   set_contents_from_file world0 ''jobs'' ''copy.bin'' []
       \<lparr>content = ''hello'', pos = 5, closed = False\<rparr> =
     set_contents_from_file world0 ''jobs'' ''copy.bin'' []
       \<lparr>content = ''hello'', pos = 0, closed = False\<rparr> \<and>
   get_key (snd (upload_to_s3 world0 (PathStr ''data.bin'') ''jobs'' ''copy.bin'' None us_host))
       ''jobs'' ''copy.bin'' = Some \<lparr>body = ''hello'', metadata = []\<rparr> \<and>
   handles (snd (upload_to_s3 world0 (PathStr ''data.bin'') ''jobs'' ''copy.bin'' None us_host)) =
     handles world0 @ [\<lparr>content = ''hello'', pos = 0, closed = True\<rparr>]"
  using upload_handle_rewound_then_closed
      [where w = world0 and fname = "PathStr ''data.bin''" and e = AttributeError
         and fid = "\<lparr>content = ''hello'', pos = 0, closed = False\<rparr>"
         and bucket = "''jobs''" and key = "''copy.bin''" and meta = "[]"
         and p = "''data.bin''" and bytes = "''hello''" and chars = "''hello''"
         and objs = "[''result.bin'' \<mapsto> \<lparr>body = ''abc'', metadata = []\<rparr>]"
         and content_type = None and h = "''s3.amazonaws.com''"]
    upload_handle_rewound_then_closed
      [where w = world0 and fid = "\<lparr>content = ''hello'', pos = 5, closed = False\<rparr>"
         and bucket = "''jobs''" and key = "''copy.bin''" and meta = "[]"]
  by (simp add: us_host_def py_open_path set_contents_from_file_rewinds
      content_type_metadata_def)

end
